theory Spec2Isabelle
  imports Complex_Main
begin

section \<open>The long-distance hint view of inline edits\<close>

text \<open>
  A shallow embedding of \<^verbatim>\<open>inlineEditsLongDistanceHint.ts\<close>: the static
  \<^verbatim>\<open>fitsInsideViewport\<close>, the derived computations of the view
  (\<^verbatim>\<open>_display\<close>, \<^verbatim>\<open>_updatePreviewEditor\<close>,
  \<^verbatim>\<open>_hintTextPosition\<close>, \<^verbatim>\<open>_previewEditorLayoutInfo\<close>,
  \<^verbatim>\<open>_editorMaxContentWidthInRange\<close>, \<^verbatim>\<open>_decorations\<close>),
  the two layout autoruns and the mouse handlers of the widget content.

  Conventions. A TypeScript \<^verbatim>\<open>number\<close> that holds a line number, a column
  or a count is an \<open>int\<close>; one that holds pixels is a \<open>real\<close> (the rounding of
  IEEE doubles is not modelled). \<^verbatim>\<open>undefined\<close> and \<^verbatim>\<open>null\<close>
  are \<open>None\<close>. An observable is represented by its current value; a derived
  observable is a function of the current values it reads, and the one derived that is
  built with a cache is modelled with that cache. What the view writes (styles,
  hidden areas, the layout of the preview editor, fired events) is a record that the
  reactions take and return.
\<close>

subsection \<open>Positions, ranges and rectangles\<close>

definition MAX_SAFE_INTEGER :: int where
  "MAX_SAFE_INTEGER = 9007199254740991"

datatype position = Position (pos_lineNumber: int) (pos_column: int)

datatype point = Point (point_x: real) (point_y: real)

text \<open>
  Modelled from the spec: the classes \<^verbatim>\<open>Range\<close>, \<^verbatim>\<open>LineRange\<close>,
  \<^verbatim>\<open>OffsetRange\<close> and \<^verbatim>\<open>Rect\<close> are imported by the file and are
  not among the sources; the spec speaks of them only as line and character ranges and as
  pixel geometry (position, width, height). They are modelled as plain values holding the
  constructor arguments the file passes, with the members the file calls read by their
  names: a \<^verbatim>\<open>Range\<close> is (start line, start column, end line, end column); a
  \<^verbatim>\<open>LineRange\<close> is a start line and an exclusive end line; an
  \<^verbatim>\<open>OffsetRange\<close> is a start and an exclusive end; a \<^verbatim>\<open>Rect\<close>
  is its four edges, a margin moves each edge outwards and a translation moves the left
  and the right edge. Any validation their constructors perform is not modelled.
\<close>

datatype editor_range =
  Range (range_startLineNumber: int) (range_startColumn: int)
        (range_endLineNumber: int) (range_endColumn: int)

definition range_isEmpty :: "editor_range \<Rightarrow> bool" where
  "range_isEmpty r =
     (range_startLineNumber r = range_endLineNumber r \<and> range_startColumn r = range_endColumn r)"

record lineRange =
  startLineNumber :: int
  endLineNumberExclusive :: int

definition LineRange_ofLength :: "int \<Rightarrow> int \<Rightarrow> lineRange" where
  "LineRange_ofLength s len = \<lparr>startLineNumber = s, endLineNumberExclusive = s + len\<rparr>"

definition lineRange_isEmpty :: "lineRange \<Rightarrow> bool" where
  "lineRange_isEmpty r = (startLineNumber r = endLineNumberExclusive r)"

definition lineRange_contains :: "lineRange \<Rightarrow> int \<Rightarrow> bool" where
  "lineRange_contains r l = (startLineNumber r \<le> l \<and> l < endLineNumberExclusive r)"

definition toInclusiveRange :: "lineRange \<Rightarrow> editor_range option" where
  "toInclusiveRange r =
     (if lineRange_isEmpty r then None
      else Some (Range (startLineNumber r) 1 (endLineNumberExclusive r - 1) MAX_SAFE_INTEGER))"

datatype offsetRange = OffsetRange (offset_start: real) (offset_endExclusive: real)

definition offset_length :: "offsetRange \<Rightarrow> real" where
  "offset_length h = offset_endExclusive h - offset_start h"

datatype rect = Rect (rect_left: real) (rect_top: real) (rect_right: real) (rect_bottom: real)

definition rect_width :: "rect \<Rightarrow> real" where
  "rect_width r = rect_right r - rect_left r"

definition rect_height :: "rect \<Rightarrow> real" where
  "rect_height r = rect_bottom r - rect_top r"

definition fromLeftTopWidthHeight :: "real \<Rightarrow> real \<Rightarrow> real \<Rightarrow> real \<Rightarrow> rect" where
  "fromLeftTopWidthHeight l t w h = Rect l t (l + w) (t + h)"

text \<open>\<^verbatim>\<open>withMargin(top, right, bottom, left)\<close> grows the rectangle on each side.\<close>

definition withMargin4 :: "real \<Rightarrow> real \<Rightarrow> real \<Rightarrow> real \<Rightarrow> rect \<Rightarrow> rect" where
  "withMargin4 mt mr mb ml r =
     Rect (rect_left r - ml) (rect_top r - mt) (rect_right r + mr) (rect_bottom r + mb)"

text \<open>\<^verbatim>\<open>withMargin(m)\<close>: the same margin on the four sides.\<close>

definition withMargin :: "real \<Rightarrow> rect \<Rightarrow> rect" where
  "withMargin m r = withMargin4 m m m m r"

definition translateX :: "real \<Rightarrow> rect \<Rightarrow> rect" where
  "translateX d r = Rect (rect_left r + d) (rect_top r) (rect_right r + d) (rect_bottom r)"

subsection \<open>The view state\<close>

text \<open>
  \<^verbatim>\<open>ILongDistanceHint\<close> and \<^verbatim>\<open>ILongDistanceViewState\<close> as the file
  declares them. Of \<^verbatim>\<open>InlineEditWithChanges\<close> and
  \<^verbatim>\<open>DetailedLineRangeMapping\<close>, declared elsewhere, the records keep the
  members this file reads: \<^verbatim>\<open>edit.originalLineRange\<close>,
  \<^verbatim>\<open>edit.modifiedLineRange\<close>, \<^verbatim>\<open>edit.displayRange\<close>,
  \<^verbatim>\<open>edit.lineEdit.newLines\<close>; \<^verbatim>\<open>m.original\<close>,
  \<^verbatim>\<open>m.modified\<close>, \<^verbatim>\<open>m.innerChanges\<close> (optional) and of an inner
  change its \<^verbatim>\<open>modifiedRange\<close> (with its original counterpart).
\<close>

record ILongDistanceHint =
  lineNumber :: int

record inlineEditWithChanges =
  originalLineRange :: lineRange
  modifiedLineRange :: lineRange
  displayRange :: lineRange
  newLines :: "string list"

record rangeMapping =
  originalRange :: editor_range
  modifiedRange :: editor_range

record detailedLineRangeMapping =
  original :: lineRange
  modified :: lineRange
  innerChanges :: "rangeMapping list option"

record ILongDistanceViewState =
  hint :: ILongDistanceHint
  newTextLineCount :: int
  edit :: inlineEditWithChanges
  diff :: "detailedLineRangeMapping list"

subsection \<open>What the view reads from its collaborators\<close>

record editorMinimapLayoutInfo =
  minimapLeft :: real
  minimapWidth :: real

record editorLayoutInfo =
  width :: real
  contentLeft :: real
  verticalScrollbarWidth :: real
  minimap :: editorMinimapLayoutInfo

text \<open>
  The host editor, as far as this file reads it: its layout info, its horizontal scroll
  offset, its cursor position, the version of its text, the coordinates at which it
  renders a text position (\<^verbatim>\<open>observePosition\<close>, \<open>None\<close> where the position
  is not rendered) and the widest content of a line range
  (\<^verbatim>\<open>maxContentWidthInRange\<close> of \<^verbatim>\<open>utils.js\<close>). The last two are
  functions of the host that are not among the sources; they are taken as given.
\<close>

record hostEditor =
  layoutInfo :: editorLayoutInfo
  scrollLeft :: real
  cursorPosition :: "position option"
  versionId :: int
  observePosition :: "position option \<Rightarrow> point option"
  maxContentWidthInRange :: "lineRange \<Rightarrow> real"

text \<open>
  The embedded preview editor and its text model: the number of lines of
  \<^verbatim>\<open>_previewTextModel\<close>, the height of a line
  (\<^verbatim>\<open>observeLineHeightForLine\<close>) and the widest content of a line range.
\<close>

record previewEditor =
  getLineCount :: int
  lineHeightForLine :: "int \<Rightarrow> real"
  previewMaxContentWidthInRange :: "lineRange \<Rightarrow> real"

datatype color = RGBA real real real real

definition Color_transparent :: color where
  "Color_transparent = RGBA 0 0 0 0"

text \<open>
  The current value of every observable the view reads. \<open>themeColor\<close> is what
  \<^verbatim>\<open>getColorTheme().getColor(originalBackgroundColor)\<close> returns.
\<close>

record observed =
  viewState :: "ILongDistanceViewState option"
  editor :: hostEditor
  preview :: previewEditor
  themeColor :: "color option"

subsection \<open>fitsInsideViewport\<close>

definition ORIGINAL_END_PADDING :: real where
  "ORIGINAL_END_PADDING = 20"

definition MODIFIED_END_PADDING :: real where
  "MODIFIED_END_PADDING = 12"

definition BORDER_WIDTH :: real where
  "BORDER_WIDTH = 1"

text \<open>
  \<^verbatim>\<open>newLines.reduce((max, line) => Math.max(max, getContentRenderWidth(line, editor, textModel)), 0)\<close>;
  \<open>renderWidth\<close> stands for \<^verbatim>\<open>getContentRenderWidth\<close> of
  \<^verbatim>\<open>utils.js\<close> at the given editor and text model.
\<close>

definition maxModifiedContent :: "(string \<Rightarrow> real) \<Rightarrow> string list \<Rightarrow> real" where
  "maxModifiedContent renderWidth ls = foldl (\<lambda>m line. max m (renderWidth line)) 0 ls"

definition fitsInsideViewport ::
  "(string \<Rightarrow> real) \<Rightarrow> hostEditor \<Rightarrow> inlineEditWithChanges \<Rightarrow> bool" where
  "fitsInsideViewport renderWidth ed e =
     (let editorWidth = width (layoutInfo ed);
          editorContentLeft = contentLeft (layoutInfo ed);
          editorVerticalScrollbar = verticalScrollbarWidth (layoutInfo ed);
          minimapWidth' = (if minimapLeft (minimap (layoutInfo ed)) \<noteq> 0
                           then minimapWidth (minimap (layoutInfo ed)) else 0);
          maxOriginalContent = maxContentWidthInRange ed (displayRange e);
          maxModified = maxModifiedContent renderWidth (newLines e);
          originalPadding = ORIGINAL_END_PADDING;
          modifiedPadding = MODIFIED_END_PADDING + 2 * BORDER_WIDTH
      in maxOriginalContent + maxModified + originalPadding + modifiedPadding
           < editorWidth - editorContentLeft - editorVerticalScrollbar - minimapWidth')"

text \<open>
  The right-hand side of the comparison in words: the maximum over the render widths of the
  new lines together with 0 (the fold starts at 0), the paddings 20 and 14, the available
  width of the editor.
\<close>

definition spec_maxRenderWidth :: "(string \<Rightarrow> real) \<Rightarrow> string list \<Rightarrow> real" where
  "spec_maxRenderWidth renderWidth ls = Max (insert 0 (renderWidth ` set ls))"

definition spec_availableWidth :: "hostEditor \<Rightarrow> real" where
  "spec_availableWidth ed =
     width (layoutInfo ed) - contentLeft (layoutInfo ed) - verticalScrollbarWidth (layoutInfo ed)
       - (if minimapLeft (minimap (layoutInfo ed)) = 0 then 0
          else minimapWidth (minimap (layoutInfo ed)))"

subsection \<open>The derived computations\<close>

text \<open>\<^verbatim>\<open>_display\<close>: a view state object is truthy, \<^verbatim>\<open>undefined\<close> is not.\<close>

definition display :: "ILongDistanceViewState option \<Rightarrow> string" where
  "display vs = (if vs \<noteq> None then ''block'' else ''none'')"

datatype error = TypeError

text \<open>
  The line range handed to the gutter indicator:
  \<^verbatim>\<open>LineRange.ofLength(this._viewState.read(reader)!.diff[0].modified.startLineNumber, 1)\<close>.
  The non-null assertion is erased at run time: reading \<^verbatim>\<open>diff\<close> of
  \<^verbatim>\<open>undefined\<close>, or \<^verbatim>\<open>modified\<close> of the missing first entry of
  an empty array, throws a TypeError.
\<close>

definition gutterIndicatorLineRange :: "ILongDistanceViewState option \<Rightarrow> error + lineRange" where
  "gutterIndicatorLineRange vs =
     (case vs of
        None \<Rightarrow> Inl TypeError
      | Some v \<Rightarrow>
          (case diff v of
             [] \<Rightarrow> Inl TypeError
           | m # _ \<Rightarrow> Inr (LineRange_ofLength (startLineNumber (modified m)) 1)))"

text \<open>
  \<^verbatim>\<open>getHorizontalContentRangeInPreviewEditorToShow\<close> returns at its first
  statement; the second \<^verbatim>\<open>return\<close> is never reached.
\<close>

definition getHorizontalContentRangeInPreviewEditorToShow ::
  "previewEditor \<Rightarrow> detailedLineRangeMapping list \<Rightarrow> offsetRange" where
  "getHorizontalContentRangeInPreviewEditorToShow ed d = OffsetRange 55 400"

definition horizontalContentRangeInPreviewEditorToShow :: "observed \<Rightarrow> offsetRange" where
  "horizontalContentRangeInPreviewEditorToShow ob =
     getHorizontalContentRangeInPreviewEditorToShow (preview ob)
       (case viewState ob of None \<Rightarrow> [] | Some v \<Rightarrow> diff v)"

text \<open>The hidden areas that \<^verbatim>\<open>_updatePreviewEditor\<close> computes for a view state.\<close>

definition hiddenAreasFor :: "int \<Rightarrow> ILongDistanceViewState \<Rightarrow> editor_range list" where
  "hiddenAreasFor modelLineCount v =
     (let range = originalLineRange (edit v) in
        (if startLineNumber range > 1
         then [Range 1 1 (startLineNumber range - 1) 1] else [])
        @ (if startLineNumber range + newTextLineCount v < modelLineCount + 1
           then [Range (startLineNumber range + newTextLineCount v) 1 (modelLineCount + 1) 1]
           else []))"

definition previewEditorWidth_derived :: "observed \<Rightarrow> real" where
  "previewEditorWidth_derived ob =
     (case viewState ob of
        None \<Rightarrow> 0
      | Some v \<Rightarrow> previewMaxContentWidthInRange (preview ob) (modifiedLineRange (edit v)))"

definition cursorPosIfTouchesEdit :: "observed \<Rightarrow> position option" where
  "cursorPosIfTouchesEdit ob =
     (case (viewState ob, cursorPosition (editor ob)) of
        (Some v, Some cursorPos) \<Rightarrow>
          (if lineRange_contains (modifiedLineRange (edit v)) (pos_lineNumber cursorPos)
           then Some cursorPos else None)
      | _ \<Rightarrow> None)"

definition hintTextPosition :: "ILongDistanceViewState option \<Rightarrow> position option" where
  "hintTextPosition vs =
     (case vs of
        None \<Rightarrow> None
      | Some v \<Rightarrow> Some (Position (lineNumber (hint v)) MAX_SAFE_INTEGER))"

definition hintTopLeft :: "observed \<Rightarrow> point option" where
  "hintTopLeft ob = observePosition (editor ob) (hintTextPosition (viewState ob))"

definition originalBackgroundColor :: "observed \<Rightarrow> color" where
  "originalBackgroundColor ob =
     (case themeColor ob of None \<Rightarrow> Color_transparent | Some c \<Rightarrow> c)"

record layoutResult =
  codeEditorRect :: rect
  codeScrollLeft :: real
  layoutContentLeft :: real
  widgetRect :: rect
  codeEditorRectWithPadding :: rect
  desiredPreviewEditorScrollLeft :: real
  previewEditorWidth :: real

definition previewEditorLayoutInfo :: "observed \<Rightarrow> layoutResult option" where
  "previewEditorLayoutInfo ob =
     (case viewState ob of
        None \<Rightarrow> None
      | Some v \<Rightarrow>
          (let horizontalScrollOffset = scrollLeft (editor ob);
               editorLayout = layoutInfo (editor ob);
               previewEditorHeight =
                 lineHeightForLine (preview ob) (startLineNumber (modifiedLineRange (edit v)));
               h = horizontalContentRangeInPreviewEditorToShow ob;
               previewEditorWidth' = offset_length h
           in case hintTopLeft ob of
                None \<Rightarrow> None
              | Some p \<Rightarrow>
                  (let margin = 10;
                       codeEditorRect' =
                         translateX (5 + 3 + 2)
                           (withMargin 5
                              (fromLeftTopWidthHeight
                                 (point_x p + contentLeft editorLayout + margin) (point_y p)
                                 previewEditorWidth' previewEditorHeight));
                       codeEditorRectWithPadding' = withMargin 3 codeEditorRect';
                       widgetRect' = withMargin4 2 2 20 2 codeEditorRectWithPadding'
                   in Some \<lparr>codeEditorRect = codeEditorRect',
                             codeScrollLeft = horizontalScrollOffset,
                             layoutContentLeft = contentLeft editorLayout,
                             widgetRect = widgetRect',
                             codeEditorRectWithPadding = codeEditorRectWithPadding',
                             desiredPreviewEditorScrollLeft = offset_start h,
                             previewEditorWidth = previewEditorWidth'\<rparr>)))"

text \<open>
  The four components of the layout that the geometry of the preview consists of.
\<close>

definition geometry :: "observed \<Rightarrow> (rect \<times> rect \<times> real \<times> real) option" where
  "geometry ob =
     map_option
       (\<lambda>l. (codeEditorRect l, widgetRect l, previewEditorWidth l, desiredPreviewEditorScrollLeft l))
       (previewEditorLayoutInfo ob)"

subsection \<open>The decorations of the preview editor\<close>

datatype decorationOptions =
  diffWholeLineAddDecoration | diffAddDecoration | diffAddDecorationEmpty

record modelDeltaDecoration =
  decorationRange :: editor_range
  decorationOptions :: decorationOptions

text \<open>
  \<^verbatim>\<open>viewState.diff.length === 1 && viewState.diff[0].innerChanges?.length === 1\<close>
\<close>

definition hasOneInnerChange :: "ILongDistanceViewState \<Rightarrow> bool" where
  "hasOneInnerChange v =
     (case diff v of
        [m] \<Rightarrow> (case innerChanges m of None \<Rightarrow> False | Some cs \<Rightarrow> length cs = 1)
      | _ \<Rightarrow> False)"

definition showEmptyDecorations :: bool where
  "showEmptyDecorations = True"

text \<open>
  The body of the loop over \<^verbatim>\<open>viewState.diff\<close>. In the first branch the
  modified range is not empty, so \<^verbatim>\<open>toInclusiveRange()\<close> is not null there.
\<close>

definition decorationsOfMapping :: "bool \<Rightarrow> detailedLineRangeMapping \<Rightarrow> modelDeltaDecoration list" where
  "decorationsOfMapping oneInner m =
     (if lineRange_isEmpty (modified m) \<or> lineRange_isEmpty (original m)
      then (if \<not> lineRange_isEmpty (modified m)
            then (case toInclusiveRange (modified m) of
                    None \<Rightarrow> []
                  | Some r \<Rightarrow>
                      [\<lparr>decorationRange = r, decorationOptions = diffWholeLineAddDecoration\<rparr>])
            else [])
      else concat
             (map (\<lambda>i. if lineRange_contains (modified m) (range_startLineNumber (modifiedRange i))
                        then [\<lparr>decorationRange = modifiedRange i,
                               decorationOptions =
                                 (if range_isEmpty (modifiedRange i) \<and> showEmptyDecorations \<and> oneInner
                                  then diffAddDecorationEmpty else diffAddDecoration)\<rparr>]
                        else [])
                (case innerChanges m of None \<Rightarrow> [] | Some cs \<Rightarrow> cs)))"

definition decorations_derived :: "ILongDistanceViewState option \<Rightarrow> modelDeltaDecoration list" where
  "decorations_derived vs =
     (case vs of
        None \<Rightarrow> []
      | Some v \<Rightarrow> concat (map (decorationsOfMapping (hasOneInnerChange v)) (diff v)))"

subsection \<open>What the view writes\<close>

text \<open>
  A browser mouse event, as far as the handlers use it: the window it belongs to (what
  \<^verbatim>\<open>getWindow(e)\<close> returns), its coordinates and whether its default action was
  prevented. A \<^verbatim>\<open>StandardMouseEvent\<close> is built from a window and the browser
  event it wraps.
\<close>

record mouseEvent =
  eventWindow :: nat
  clientX :: real
  clientY :: real
  defaultPrevented :: bool

record standardMouseEvent =
  targetWindow :: nat
  browserEvent :: mouseEvent

definition getWindow :: "mouseEvent \<Rightarrow> nat" where
  "getWindow e = eventWindow e"

definition StandardMouseEvent :: "nat \<Rightarrow> mouseEvent \<Rightarrow> standardMouseEvent" where
  "StandardMouseEvent w e = \<lparr>targetWindow = w, browserEvent = e\<rparr>"

text \<open>
  Everything the view changes. \<open>viewDisplay\<close> is the \<^verbatim>\<open>display\<close> style of
  \<^verbatim>\<open>this._view.element\<close> (\<open>None\<close> while \<^verbatim>\<open>this._view\<close> is not
  assigned); \<open>styleTop\<close>, \<open>styleLeft\<close> and \<open>styleWidth\<close> are the pixel values of
  the styles of the widget content; \<open>previewDimension\<close> is the (height, width) last
  passed to \<^verbatim>\<open>previewEditor.layout\<close>; \<open>fired\<close> lists the events that
  \<^verbatim>\<open>_onDidClick\<close> has fired, oldest first; \<open>didMouseMoveDuringHover\<close> is the
  hover state that the widget content maintains.
\<close>

record widget =
  viewDisplay :: "string option"
  hiddenAreas :: "editor_range list"
  previewDecorations :: "modelDeltaDecoration list"
  previewDimension :: "(real \<times> real) option"
  styleTop :: "real option"
  styleLeft :: "real option"
  styleWidth :: "real option"
  previewScrollLeft :: real
  fired :: "standardMouseEvent list"
  didMouseMoveDuringHover :: bool

text \<open>\<^verbatim>\<open>_updatePreviewEditor\<close>\<close>

definition updatePreviewEditor :: "observed \<Rightarrow> widget \<Rightarrow> widget" where
  "updatePreviewEditor ob w =
     (let w1 = (case viewDisplay w of
                  None \<Rightarrow> w
                | Some _ \<Rightarrow> w\<lparr>viewDisplay := Some (display (viewState ob))\<rparr>)
      in case viewState ob of
           None \<Rightarrow> w1
         | Some v \<Rightarrow> w1\<lparr>hiddenAreas := hiddenAreasFor (getLineCount (preview ob)) v\<rparr>)"

text \<open>
  The root element \<^verbatim>\<open>_view\<close> is created with
  \<^verbatim>\<open>display: this._display\<close> and kept updated.
\<close>

definition view_keepUpdated :: "observed \<Rightarrow> widget \<Rightarrow> widget" where
  "view_keepUpdated ob w = w\<lparr>viewDisplay := Some (display (viewState ob))\<rparr>"

definition setDecorations :: "observed \<Rightarrow> widget \<Rightarrow> widget" where
  "setDecorations ob w = w\<lparr>previewDecorations := decorations_derived (viewState ob)\<rparr>"

text \<open>The first autorun: the layout of the preview editor and the place of the widget.\<close>

definition autorun_layout :: "observed \<Rightarrow> widget \<Rightarrow> widget" where
  "autorun_layout ob w =
     (case previewEditorLayoutInfo ob of
        None \<Rightarrow> w
      | Some l \<Rightarrow>
          (let editorRect = codeEditorRect l
           in w\<lparr>previewDimension := Some (rect_height editorRect, rect_width editorRect),
                styleTop := Some (rect_top (widgetRect l)),
                styleLeft := Some (rect_left (widgetRect l)),
                styleWidth := Some (rect_width (widgetRect l))\<rparr>))"

text \<open>The second autorun: the horizontal scroll offset of the preview editor.\<close>

definition autorun_setScrollLeft :: "observed \<Rightarrow> widget \<Rightarrow> widget" where
  "autorun_setScrollLeft ob w =
     (case previewEditorLayoutInfo ob of
        None \<Rightarrow> w
      | Some l \<Rightarrow> w\<lparr>previewScrollLeft := desiredPreviewEditorScrollLeft l\<rparr>)"

text \<open>
  One pass of the reactions of the view over the current values, in the order in which
  the constructor registers them.
\<close>

definition react :: "observed \<Rightarrow> widget \<Rightarrow> widget" where
  "react ob w =
     updatePreviewEditor ob
       (autorun_setScrollLeft ob
          (autorun_layout ob
             (view_keepUpdated ob
                (setDecorations ob w))))"

text \<open>
  Whether a line lies in one of the hidden areas: an area hides the lines from its start
  line to its end line.
\<close>

definition inHiddenArea :: "editor_range list \<Rightarrow> int \<Rightarrow> bool" where
  "inHiddenArea hs l =
     list_ex (\<lambda>r. range_startLineNumber r \<le> l \<and> l \<le> range_endLineNumber r) hs"

subsection \<open>The mouse handlers\<close>

text \<open>
  \<^verbatim>\<open>onmousedown\<close> only prevents the default action of the event;
  \<^verbatim>\<open>onclick\<close> fires \<^verbatim>\<open>_onDidClick\<close> with
  \<^verbatim>\<open>new StandardMouseEvent(getWindow(e), e)\<close>.
\<close>

definition onmousedown :: "mouseEvent \<Rightarrow> mouseEvent" where
  "onmousedown e = e\<lparr>defaultPrevented := True\<rparr>"

definition onclick :: "mouseEvent \<Rightarrow> widget \<Rightarrow> widget" where
  "onclick e w = w\<lparr>fired := fired w @ [StandardMouseEvent (getWindow e) e]\<rparr>"

text \<open>
  The events the widget content can receive: the two it handles, and the others. The
  browser calls the handler of an event once.
\<close>

datatype domEvent = MouseDown mouseEvent | Click mouseEvent | OtherEvent mouseEvent

fun dispatch :: "widget \<Rightarrow> domEvent \<Rightarrow> widget" where
  "dispatch w (MouseDown e) = w"
| "dispatch w (Click e) = onclick e w"
| "dispatch w (OtherEvent e) = w"

fun clicksOf :: "domEvent list \<Rightarrow> mouseEvent list" where
  "clicksOf [] = []"
| "clicksOf (Click e # es) = e # clicksOf es"
| "clicksOf (_ # es) = clicksOf es"

definition isHovered :: "widget \<Rightarrow> bool" where
  "isHovered w = didMouseMoveDuringHover w"

subsection \<open>The largest content width observed\<close>

text \<open>
  \<^verbatim>\<open>_editorMaxContentWidthInRange\<close> (lines 225 to 239). One observation holds
  what a computation of it reads: the display range of the edit (\<open>'r\<close> is the range as
  the observable compares it), the version of the editor text and the content width that
  \<^verbatim>\<open>maxContentWidthInRange\<close> measures at that moment.
\<close>

record 'r widthObservation =
  obsDisplayRange :: "'r option"
  obsVersionId :: int
  obsMaxWidth :: real


text \<open>
  The value of the outer derived: not yet computed, the constant observable 0, or an
  observable with a cache, created for a display range and a text version, holding
  \<^verbatim>\<open>lastValue\<close>.
\<close>

datatype 'r maxWidthObservable =
  NotComputed | ConstObservable | WithCache 'r int "real option"

text \<open>\<^verbatim>\<open>Math.max(maxWidth, lastValue ?? 0)\<close>\<close>

definition cacheCompute :: "real \<Rightarrow> real option \<Rightarrow> real" where
  "cacheCompute maxWidth lastValue = max maxWidth (case lastValue of None \<Rightarrow> 0 | Some l \<Rightarrow> l)"

text \<open>
  The observable that one run of the outer derived creates, read once:
  \<^verbatim>\<open>lastValue\<close> is undefined at its first computation.
\<close>

definition freshCache :: "'r \<Rightarrow> 'r widthObservation \<Rightarrow> 'r maxWidthObservable" where
  "freshCache r ob = WithCache r (obsVersionId ob) (Some (cacheCompute (obsMaxWidth ob) None))"

text \<open>
  One read of the derived. \<^verbatim>\<open>derived\<close> and
  \<^verbatim>\<open>derivedObservableWithCache\<close> of \<^verbatim>\<open>observable.js\<close> are not among
  the sources; whether an observer holds the derived is the parameter \<open>hasObserver\<close>.
  The closure variable \<^verbatim>\<open>lastValue\<close> belongs to the observable that one run of
  the outer derived creates. While an observer holds the derived, the outer derived runs
  again only when the display range or the text version changed, and otherwise the cached
  observable is computed again with its last value. Read without an observer, the outer
  derived runs at every read, so every read starts from an undefined
  \<^verbatim>\<open>lastValue\<close>.
\<close>

definition emcw_step ::
  "bool \<Rightarrow> 'r maxWidthObservable \<Rightarrow> 'r widthObservation \<Rightarrow> 'r maxWidthObservable" where
  "emcw_step hasObserver st ob =
     (case obsDisplayRange ob of
        None \<Rightarrow> ConstObservable
      | Some r \<Rightarrow>
          (case st of
             WithCache r' v' lastValue \<Rightarrow>
               (if hasObserver \<and> r' = r \<and> v' = obsVersionId ob
                then WithCache r' v' (Some (cacheCompute (obsMaxWidth ob) lastValue))
                else freshCache r ob)
           | _ \<Rightarrow> freshCache r ob))"

fun emcw_value :: "'r maxWidthObservable \<Rightarrow> real" where
  "emcw_value (WithCache r v (Some x)) = x"
| "emcw_value _ = 0"

text \<open>The value read after a run of reads, oldest first.\<close>

definition maxWidthAfter :: "bool \<Rightarrow> 'r widthObservation list \<Rightarrow> real" where
  "maxWidthAfter hasObserver obs = emcw_value (foldl (emcw_step hasObserver) NotComputed obs)"


text \<open>
  The key under which a cache was created, and the key an observation asks for: the display
  range together with the text version, when there is a display range.
\<close>

definition cacheKey :: "'r maxWidthObservable \<Rightarrow> ('r \<times> int) option" where
  "cacheKey st = (case st of WithCache r v l \<Rightarrow> Some (r, v) | _ \<Rightarrow> None)"

definition obsKey :: "'r widthObservation \<Rightarrow> ('r \<times> int) option" where
  "obsKey ob = map_option (\<lambda>r. (r, obsVersionId ob)) (obsDisplayRange ob)"

subsection \<open>Runs of the reactions\<close>



subsection \<open>Runs that differ in one input\<close>

text \<open>
  The place of the widget content: the \<^verbatim>\<open>left\<close> and \<^verbatim>\<open>top\<close> that the
  first autorun writes, when there is a layout.
\<close>

definition placement :: "observed \<Rightarrow> (real \<times> real) option" where
  "placement ob =
     map_option (\<lambda>l. (rect_left (widgetRect l), rect_top (widgetRect l)))
       (previewEditorLayoutInfo ob)"

definition withHostLayout :: "observed \<Rightarrow> editorLayoutInfo \<Rightarrow> observed" where
  "withHostLayout ob l = ob\<lparr>editor := (editor ob)\<lparr>layoutInfo := l\<rparr>\<rparr>"

definition withCursorPosition :: "observed \<Rightarrow> position option \<Rightarrow> observed" where
  "withCursorPosition ob c = ob\<lparr>editor := (editor ob)\<lparr>cursorPosition := c\<rparr>\<rparr>"

definition withDiff :: "observed \<Rightarrow> detailedLineRangeMapping list \<Rightarrow> observed" where
  "withDiff ob d = ob\<lparr>viewState := map_option (\<lambda>v. v\<lparr>diff := d\<rparr>) (viewState ob)\<rparr>"

definition withTheme :: "observed \<Rightarrow> color option \<Rightarrow> observed" where
  "withTheme ob t = ob\<lparr>themeColor := t\<rparr>"

subsection \<open>Example values\<close>

text \<open>
  An edit that replaces line 3 of a six-line preview model by two lines, hinted at line 7
  of a host editor that renders the end of line \<open>n\<close> at (40, 20 n).
\<close>

definition lines_from_to :: "int \<Rightarrow> int \<Rightarrow> lineRange" where
  "lines_from_to a b = \<lparr>startLineNumber = a, endLineNumberExclusive = b\<rparr>"

definition example_edit :: inlineEditWithChanges where
  "example_edit =
     \<lparr>originalLineRange = lines_from_to 3 4, modifiedLineRange = lines_from_to 3 5,
      displayRange = lines_from_to 3 4, newLines = [''ab'', ''cde'']\<rparr>"

definition example_viewState :: ILongDistanceViewState where
  "example_viewState =
     \<lparr>hint = \<lparr>lineNumber = 7\<rparr>, newTextLineCount = 2, edit = example_edit,
      diff = [\<lparr>original = lines_from_to 3 4, modified = lines_from_to 3 5, innerChanges = None\<rparr>]\<rparr>"

definition example_layoutInfo :: editorLayoutInfo where
  "example_layoutInfo =
     \<lparr>width = 800, contentLeft = 60, verticalScrollbarWidth = 14,
      minimap = \<lparr>minimapLeft = 700, minimapWidth = 86\<rparr>\<rparr>"

definition example_host :: hostEditor where
  "example_host =
     \<lparr>layoutInfo = example_layoutInfo, scrollLeft = 0, cursorPosition = Some (Position 1 1),
      versionId = 1,
      observePosition =
        (\<lambda>q. case q of None \<Rightarrow> None
              | Some p \<Rightarrow> Some (Point 40 (20 * real_of_int (pos_lineNumber p)))),
      maxContentWidthInRange = (\<lambda>r. 200)\<rparr>"

definition example_preview :: previewEditor where
  "example_preview =
     \<lparr>getLineCount = 6, lineHeightForLine = (\<lambda>l. 18),
      previewMaxContentWidthInRange = (\<lambda>r. 120)\<rparr>"

definition example_observed :: observed where
  "example_observed =
     \<lparr>viewState = Some example_viewState, editor = example_host, preview = example_preview,
      themeColor = None\<rparr>"

definition initial_widget :: widget where
  "initial_widget =
     \<lparr>viewDisplay = None, hiddenAreas = [], previewDecorations = [], previewDimension = None,
      styleTop = None, styleLeft = None, styleWidth = None, previewScrollLeft = 0, fired = [],
      didMouseMoveDuringHover = False\<rparr>"


text \<open>
  Two measurements of the content width of the same display range at the same version of
  the text: a wide one, then a narrow one.
\<close>

definition wide_observation :: "lineRange widthObservation" where
  "wide_observation =
     \<lparr>obsDisplayRange = Some (lines_from_to 3 4), obsVersionId = 1, obsMaxWidth = 100\<rparr>"

definition narrow_observation :: "lineRange widthObservation" where
  "narrow_observation =
     \<lparr>obsDisplayRange = Some (lines_from_to 3 4), obsVersionId = 1, obsMaxWidth = 50\<rparr>"

section \<open>Verification\<close>

subsection \<open>Auxiliary facts\<close>

lemma Max_insert_max:
  fixes a x :: real
  assumes "finite S"
  shows "Max (insert (max a x) S) = Max (insert x (insert a S))"
proof (cases "S = {}")
  case True
  then show ?thesis by (simp add: max.commute)
next
  case False
  with assms have "Max (insert (max a x) S) = max (max a x) (Max S)"
    and "Max (insert x (insert a S)) = max x (max a (Max S))"
    by simp_all
  then show ?thesis by linarith
qed

lemma foldl_max_Max:
  fixes f :: "'a \<Rightarrow> real"
  shows "foldl (\<lambda>m x. max m (f x)) a xs = Max (insert a (f ` set xs))"
proof (induction xs arbitrary: a)
  case Nil
  then show ?case by simp
next
  case (Cons x xs)
  have "foldl (\<lambda>m x. max m (f x)) a (x # xs) = Max (insert (max a (f x)) (f ` set xs))"
    using Cons.IH [of "max a (f x)"] by simp
  also have "\<dots> = Max (insert (f x) (insert a (f ` set xs)))"
    using Max_insert_max [of "f ` set xs" a "f x"] by simp
  also have "\<dots> = Max (insert a (f ` set (x # xs)))"
    by (simp add: insert_commute)
  finally show ?case .
qed

text \<open>
  Where every render width is non-negative and there is a new line, the maximum with 0 is
  the maximum of the render widths.
\<close>

lemma spec_maxRenderWidth_nonneg:
  assumes "ls \<noteq> []" and "\<forall>l\<in>set ls. 0 \<le> renderWidth l"
  shows "spec_maxRenderWidth renderWidth ls = Max (renderWidth ` set ls)"
proof -
  from assms(1) obtain l where l: "l \<in> set ls" by (cases ls) auto
  have fin: "finite (renderWidth ` set ls)" and ne: "renderWidth ` set ls \<noteq> {}"
    using assms(1) by simp_all
  have "0 \<le> renderWidth l" using assms(2) l by blast
  also have "renderWidth l \<le> Max (renderWidth ` set ls)" using fin l by simp
  finally have "max 0 (Max (renderWidth ` set ls)) = Max (renderWidth ` set ls)" by simp
  then show ?thesis
    unfolding spec_maxRenderWidth_def using fin ne by simp
qed

lemma hiddenAreas_updatePreviewEditor:
  "hiddenAreas (updatePreviewEditor (ob\<lparr>viewState := Some v\<rparr>) w)
     = hiddenAreasFor (getLineCount (preview ob)) v"
  by (simp add: updatePreviewEditor_def Let_def split: option.splits)

lemma inHiddenArea_hiddenAreasFor:
  "inHiddenArea (hiddenAreasFor lc v) l \<longleftrightarrow>
     (1 < startLineNumber (originalLineRange (edit v)) \<and> 1 \<le> l
        \<and> l \<le> startLineNumber (originalLineRange (edit v)) - 1)
     \<or> (startLineNumber (originalLineRange (edit v)) + newTextLineCount v < lc + 1
        \<and> startLineNumber (originalLineRange (edit v)) + newTextLineCount v \<le> l \<and> l \<le> lc + 1)"
  by (auto simp add: inHiddenArea_def hiddenAreasFor_def Let_def)

text \<open>Every hidden area that is pushed starts no later than it ends.\<close>

lemma hiddenAreasFor_ordered:
  "r \<in> set (hiddenAreasFor lc v) \<Longrightarrow> range_startLineNumber r \<le> range_endLineNumber r"
  by (auto simp add: hiddenAreasFor_def Let_def split: if_splits)

lemma previewEditorLayoutInfo_Some:
  assumes "viewState ob = Some v"
    and "observePosition (editor ob) (Some (Position (lineNumber (hint v)) MAX_SAFE_INTEGER)) = Some p"
  shows "\<exists>l. previewEditorLayoutInfo ob = Some l
           \<and> rect_left (codeEditorRect l) = point_x p + contentLeft (layoutInfo (editor ob)) + 15
           \<and> rect_top (codeEditorRect l) = point_y p - 5
           \<and> rect_left (widgetRect l) = point_x p + contentLeft (layoutInfo (editor ob)) + 10
           \<and> rect_top (widgetRect l) = point_y p - 10"
  using assms
  by (simp add: previewEditorLayoutInfo_def hintTopLeft_def hintTextPosition_def Let_def
      translateX_def withMargin_def withMargin4_def fromLeftTopWidthHeight_def)

lemma placement_hint_lineNumber:
  "lineNumber (hint v') = lineNumber (hint v) \<Longrightarrow>
     placement (ob\<lparr>viewState := Some v'\<rparr>) = placement (ob\<lparr>viewState := Some v\<rparr>)"
  by (simp add: placement_def previewEditorLayoutInfo_def hintTopLeft_def hintTextPosition_def
      Let_def translateX_def withMargin_def withMargin4_def fromLeftTopWidthHeight_def
      horizontalContentRangeInPreviewEditorToShow_def
      getHorizontalContentRangeInPreviewEditorToShow_def split: option.splits)

lemma geometry_withCursorPosition: "geometry (withCursorPosition ob c) = geometry ob"
  by (simp add: geometry_def withCursorPosition_def previewEditorLayoutInfo_def hintTopLeft_def
      horizontalContentRangeInPreviewEditorToShow_def Let_def split: option.splits)

lemma geometry_withTheme: "geometry (withTheme ob t) = geometry ob"
  by (simp add: geometry_def withTheme_def previewEditorLayoutInfo_def hintTopLeft_def
      horizontalContentRangeInPreviewEditorToShow_def Let_def split: option.splits)

lemma geometry_example:
  "geometry example_observed = Some (Rect 115 135 470 163, Rect 110 130 475 186, 345, 55)"
  by (simp add: geometry_def previewEditorLayoutInfo_def hintTopLeft_def hintTextPosition_def
      horizontalContentRangeInPreviewEditorToShow_def
      getHorizontalContentRangeInPreviewEditorToShow_def offset_length_def Let_def
      translateX_def withMargin_def withMargin4_def fromLeftTopWidthHeight_def
      example_observed_def example_host_def example_preview_def example_viewState_def
      example_edit_def example_layoutInfo_def lines_from_to_def)

lemma geometry_example_contentLeft:
  "geometry (withHostLayout example_observed (example_layoutInfo\<lparr>contentLeft := 70\<rparr>))
     = Some (Rect 125 135 480 163, Rect 120 130 485 186, 345, 55)"
  by (simp add: geometry_def previewEditorLayoutInfo_def hintTopLeft_def hintTextPosition_def
      horizontalContentRangeInPreviewEditorToShow_def withHostLayout_def
      getHorizontalContentRangeInPreviewEditorToShow_def offset_length_def Let_def
      translateX_def withMargin_def withMargin4_def fromLeftTopWidthHeight_def
      example_observed_def example_host_def example_preview_def example_viewState_def
      example_edit_def example_layoutInfo_def lines_from_to_def)

lemma fired_foldl_dispatch:
  "fired (foldl dispatch w es) =
     fired w @ map (\<lambda>e. StandardMouseEvent (getWindow e) e) (clicksOf es)"
proof (induction es arbitrary: w)
  case Nil
  then show ?case by simp
next
  case (Cons a es)
  then show ?case by (cases a) (simp_all add: onclick_def)
qed







text \<open>
  Were the derived held by an observer, it would keep the largest width measured since the
  display range or the text version last changed.
\<close>

lemma cacheKey_emcw_step: "cacheKey (emcw_step h st ob) = obsKey ob"
  by (simp add: emcw_step_def cacheKey_def obsKey_def freshCache_def
      split: option.splits maxWidthObservable.splits)

lemma cacheKey_foldl:
  "obs \<noteq> [] \<Longrightarrow> cacheKey (foldl (emcw_step h) st obs) = obsKey (last obs)"
  by (induction obs arbitrary: st rule: rev_induct) (simp_all add: cacheKey_emcw_step)

lemma emcw_step_fresh:
  assumes "cacheKey st \<noteq> Some (r, v)" and "obsDisplayRange ob = Some r" and "obsVersionId ob = v"
  shows "emcw_step h st ob = WithCache r v (Some (max (obsMaxWidth ob) 0))"
  using assms
  by (auto simp add: emcw_step_def cacheKey_def freshCache_def cacheCompute_def
      split: maxWidthObservable.splits)

lemma emcw_step_cached:
  assumes "obsDisplayRange ob = Some r" and "obsVersionId ob = v"
  shows "emcw_step True (WithCache r v (Some x)) ob
           = WithCache r v (Some (max (obsMaxWidth ob) x))"
  using assms by (simp add: emcw_step_def cacheCompute_def)

lemma foldl_emcw_step_cached:
  assumes "\<forall>ob\<in>set seg. obsDisplayRange ob = Some r \<and> obsVersionId ob = v"
  shows "foldl (emcw_step True) (WithCache r v (Some x)) seg
           = WithCache r v (Some (Max (insert x (obsMaxWidth ` set seg))))"
  using assms
proof (induction seg arbitrary: x)
  case Nil
  then show ?case by simp
next
  case (Cons ob seg)
  have step: "emcw_step True (WithCache r v (Some x)) ob
                = WithCache r v (Some (max (obsMaxWidth ob) x))"
    using Cons.prems by (intro emcw_step_cached) simp_all
  have rest: "\<forall>ob\<in>set seg. obsDisplayRange ob = Some r \<and> obsVersionId ob = v"
    using Cons.prems by simp
  have "foldl (emcw_step True) (WithCache r v (Some x)) (ob # seg)
          = WithCache r v (Some (Max (insert (max (obsMaxWidth ob) x) (obsMaxWidth ` set seg))))"
    using Cons.IH [OF rest] by (simp only: foldl_Cons step)
  also have "Max (insert (max (obsMaxWidth ob) x) (obsMaxWidth ` set seg))
          = Max (insert x (obsMaxWidth ` set (ob # seg)))"
    using Max_insert_max [of "obsMaxWidth ` set seg" "obsMaxWidth ob" x] by simp
  finally show ?case .
qed

lemma foldl_emcw_step_fresh:
  assumes "seg \<noteq> []"
    and "\<forall>ob\<in>set seg. obsDisplayRange ob = Some r \<and> obsVersionId ob = v"
    and "cacheKey st \<noteq> Some (r, v)"
  shows "foldl (emcw_step True) st seg
           = WithCache r v (Some (Max (insert 0 (obsMaxWidth ` set seg))))"
proof (cases seg)
  case Nil
  with assms show ?thesis by simp
next
  case (Cons ob seg')
  have 1: "emcw_step True st ob = WithCache r v (Some (max (obsMaxWidth ob) 0))"
    using assms Cons by (intro emcw_step_fresh) simp_all
  have 2: "\<forall>ob\<in>set seg'. obsDisplayRange ob = Some r \<and> obsVersionId ob = v"
    using assms Cons by simp
  have "foldl (emcw_step True) st seg
          = WithCache r v (Some (Max (insert (max (obsMaxWidth ob) 0) (obsMaxWidth ` set seg'))))"
    unfolding Cons using foldl_emcw_step_cached [OF 2] by (simp only: foldl_Cons 1)
  also have "Max (insert (max (obsMaxWidth ob) 0) (obsMaxWidth ` set seg'))
          = Max (insert 0 (obsMaxWidth ` set seg))"
    unfolding Cons using Max_insert_max [of "obsMaxWidth ` set seg'" "obsMaxWidth ob" 0] by simp
  finally show ?thesis .
qed

lemma maxWidthAfter_observed_since_reset:
  assumes "seg \<noteq> []"
    and "\<forall>ob\<in>set seg. obsDisplayRange ob = Some r \<and> obsVersionId ob = v"
    and "pre = [] \<or> obsDisplayRange (last pre) \<noteq> Some r \<or> obsVersionId (last pre) \<noteq> v"
  shows "maxWidthAfter True (pre @ seg) = Max (insert 0 (obsMaxWidth ` set seg))"
proof -
  have "cacheKey (foldl (emcw_step True) NotComputed pre) \<noteq> Some (r, v)"
  proof (cases "pre = []")
    case True
    then show ?thesis by (simp add: cacheKey_def)
  next
    case False
    with assms(3) show ?thesis
      by (auto simp add: cacheKey_foldl obsKey_def)
  qed
  then show ?thesis
    unfolding maxWidthAfter_def foldl_append
    by (simp add: foldl_emcw_step_fresh [OF assms(1) assms(2)])
qed

text \<open>
  A wide and then a narrow measurement: held by an observer the derived would be the wide
  one; read without observer, as in the view, it is the narrow one.
\<close>

lemma maxWidthAfter_wide_narrow:
  "maxWidthAfter True [wide_observation, narrow_observation] = 100
   \<and> maxWidthAfter False [wide_observation, narrow_observation] = 50"
  by (simp add: maxWidthAfter_def emcw_step_def wide_observation_def narrow_observation_def
      freshCache_def cacheCompute_def)

subsection \<open>The properties of the view\<close>

text \<open>
  C1. The display style derived from the view state is \<open>none\<close> when the view state is
  undefined and \<open>block\<close> when it is defined, and it is the display style of the root
  element of the view after a pass of the reactions. With an undefined view state a pass
  changes nothing else that is shown: the hidden areas, the layout and the scroll offset
  of the preview editor and the place of the widget content stay as they were, and the
  list of decorations handed to the preview editor is empty.
\<close>

theorem display_none_iff_viewState_undefined:
  "display None = ''none''
   \<and> display (Some v) = ''block''
   \<and> viewDisplay (react ob w) = Some (display (viewState ob))
   \<and> react (ob\<lparr>viewState := None\<rparr>) w
       = w\<lparr>viewDisplay := Some ''none'', previewDecorations := []\<rparr>"
  by (simp add: display_def react_def updatePreviewEditor_def autorun_setScrollLeft_def
      autorun_layout_def view_keepUpdated_def setDecorations_def previewEditorLayoutInfo_def
      decorations_derived_def Let_def split: option.splits)

text \<open>
  C2, as stated: for each of the host layout, the cursor position, the diff and the theme
  there are two runs of the layout computation that differ only in that input and whose
  geometry differs. This fails: the layout computation reads neither the theme nor the
  cursor position.
\<close>

theorem geometry_depends_on_every_input_counterexample:
  "\<not> ((\<exists>ob l. geometry (withHostLayout ob l) \<noteq> geometry ob)
      \<and> (\<exists>ob c. geometry (withCursorPosition ob c) \<noteq> geometry ob)
      \<and> (\<exists>ob d. geometry (withDiff ob d) \<noteq> geometry ob)
      \<and> (\<exists>ob t. geometry (withTheme ob t) \<noteq> geometry ob))"
  by (simp add: geometry_withTheme)

text \<open>
  C2, amended: the geometry depends on the layout of the host editor (two runs that differ
  only in the content-left offset of the host have different rectangles), and it does not
  depend on the cursor position or on the theme.
\<close>

theorem geometry_depends_on_host_layout_only:
  "(\<exists>ob l. geometry (withHostLayout ob l) \<noteq> geometry ob)
   \<and> (\<forall>ob c. geometry (withCursorPosition ob c) = geometry ob)
   \<and> (\<forall>ob t. geometry (withTheme ob t) = geometry ob)"
proof -
  have "geometry (withHostLayout example_observed (example_layoutInfo\<lparr>contentLeft := 70\<rparr>))
          \<noteq> geometry example_observed"
    by (simp add: geometry_example geometry_example_contentLeft)
  then have "\<exists>ob l. geometry (withHostLayout ob l) \<noteq> geometry ob"
    by blast
  then show ?thesis
    by (simp add: geometry_withCursorPosition geometry_withTheme)
qed

text \<open>
  C3. For a defined view state, with \<open>s\<close> the first line of the original line range of
  the edit, \<open>n\<close> the number of new text lines and \<open>lc\<close> the number of lines of the
  preview model, the hidden areas set by the update hide, among the lines \<open>1..lc\<close> of
  the model, exactly those outside the window \<open>s..s+n-1\<close>: the area from line 1 to
  line \<open>s-1\<close> is there when \<open>1 < s\<close>, the area from line \<open>s+n\<close> to the end of the
  model (its end line is \<open>lc+1\<close>) is there when \<open>s+n \<le> lc\<close>, and no line of the
  window lies in a hidden area.
\<close>

theorem hiddenAreas_outside_window:
  fixes ob :: observed and v :: ILongDistanceViewState and w :: widget
  defines "s \<equiv> startLineNumber (originalLineRange (edit v))"
    and "n \<equiv> newTextLineCount v"
    and "lc \<equiv> getLineCount (preview ob)"
    and "hs \<equiv> hiddenAreas (updatePreviewEditor (ob\<lparr>viewState := Some v\<rparr>) w)"
  shows "(\<forall>l. 1 \<le> l \<and> l \<le> lc \<longrightarrow> (inHiddenArea hs l \<longleftrightarrow> l < s \<or> s + n \<le> l))
    \<and> (1 < s \<longrightarrow> Range 1 1 (s - 1) 1 \<in> set hs
          \<and> (\<forall>l. 1 \<le> l \<and> l \<le> s - 1 \<longrightarrow> inHiddenArea hs l))
    \<and> (s + n \<le> lc \<longrightarrow> Range (s + n) 1 (lc + 1) 1 \<in> set hs
          \<and> (\<forall>l. s + n \<le> l \<and> l \<le> lc \<longrightarrow> inHiddenArea hs l))
    \<and> (\<forall>l. s \<le> l \<and> l < s + n \<longrightarrow> \<not> inHiddenArea hs l)"
proof -
  have hs: "hs = hiddenAreasFor lc v"
    unfolding hs_def lc_def by (rule hiddenAreas_updatePreviewEditor)
  have mem: "\<And>l. inHiddenArea hs l \<longleftrightarrow>
      (1 < s \<and> 1 \<le> l \<and> l \<le> s - 1) \<or> (s + n < lc + 1 \<and> s + n \<le> l \<and> l \<le> lc + 1)"
    unfolding hs s_def n_def by (rule inHiddenArea_hiddenAreasFor)
  have a: "\<forall>l. 1 \<le> l \<and> l \<le> lc \<longrightarrow> (inHiddenArea hs l \<longleftrightarrow> l < s \<or> s + n \<le> l)"
    unfolding mem by auto
  have b: "1 < s \<longrightarrow> Range 1 1 (s - 1) 1 \<in> set hs
      \<and> (\<forall>l. 1 \<le> l \<and> l \<le> s - 1 \<longrightarrow> inHiddenArea hs l)"
    unfolding mem by (simp add: hs hiddenAreasFor_def s_def Let_def)
  have c: "s + n \<le> lc \<longrightarrow> Range (s + n) 1 (lc + 1) 1 \<in> set hs
      \<and> (\<forall>l. s + n \<le> l \<and> l \<le> lc \<longrightarrow> inHiddenArea hs l)"
    unfolding mem by (simp add: hs hiddenAreasFor_def s_def n_def Let_def)
  have d: "\<forall>l. s \<le> l \<and> l < s + n \<longrightarrow> \<not> inHiddenArea hs l"
    unfolding mem by auto
  from a b c d show ?thesis by blast
qed

theorem hiddenAreas_outside_window_witness:
  "hiddenAreas (updatePreviewEditor (example_observed\<lparr>viewState := Some example_viewState\<rparr>)
       initial_widget) = [Range 1 1 2 1, Range 5 1 7 1]
   \<and> inHiddenArea (hiddenAreas (updatePreviewEditor
         (example_observed\<lparr>viewState := Some example_viewState\<rparr>) initial_widget)) 2
   \<and> \<not> inHiddenArea (hiddenAreas (updatePreviewEditor
         (example_observed\<lparr>viewState := Some example_viewState\<rparr>) initial_widget)) 3
   \<and> \<not> inHiddenArea (hiddenAreas (updatePreviewEditor
         (example_observed\<lparr>viewState := Some example_viewState\<rparr>) initial_widget)) 4
   \<and> inHiddenArea (hiddenAreas (updatePreviewEditor
         (example_observed\<lparr>viewState := Some example_viewState\<rparr>) initial_widget)) 5"
  using hiddenAreas_outside_window
    [where v = example_viewState and ob = example_observed and w = initial_widget]
  by (simp add: updatePreviewEditor_def hiddenAreasFor_def inHiddenArea_def Let_def
      example_observed_def example_preview_def example_viewState_def example_edit_def
      lines_from_to_def initial_widget_def)

text \<open>
  C4. The line range handed to the gutter indicator is not defined for every view state:
  with an undefined view state, and with a view state whose diff is empty, the computation
  throws. With a first diff entry it is the one-line range at the first modified line.
\<close>

theorem gutterIndicatorLineRange_throws:
  "gutterIndicatorLineRange None = Inl TypeError
   \<and> gutterIndicatorLineRange (Some (v\<lparr>diff := []\<rparr>)) = Inl TypeError
   \<and> gutterIndicatorLineRange (Some (v\<lparr>diff := m # ms\<rparr>))
       = Inr \<lparr>startLineNumber = startLineNumber (modified m),
              endLineNumberExclusive = startLineNumber (modified m) + 1\<rparr>"
  by (simp add: gutterIndicatorLineRange_def LineRange_ofLength_def)



text \<open>
  C6. For a defined view state the hint text position is the line of the hint at the
  largest column. Where the host editor renders that position at a point \<open>p\<close>, there is
  a layout, the top-left corner of the rectangle of the preview editor is
  \<open>(x p + contentLeft + 10 - 5 + 10, y p - 5)\<close>, the widget content is placed at
  \<open>(x p + contentLeft + 10, y p - 10)\<close>, and the place is the same for every view state
  with the same hint line.
\<close>

theorem widget_placed_at_hint:
  assumes "viewState ob = Some v"
    and "observePosition (editor ob) (Some (Position (lineNumber (hint v)) MAX_SAFE_INTEGER)) = Some p"
  shows "hintTextPosition (viewState ob) = Some (Position (lineNumber (hint v)) MAX_SAFE_INTEGER)
    \<and> hintTopLeft ob = Some p
    \<and> (\<exists>l. previewEditorLayoutInfo ob = Some l
          \<and> rect_left (codeEditorRect l)
              = point_x p + contentLeft (layoutInfo (editor ob)) + 10 - 5 + (5 + 3 + 2)
          \<and> rect_top (codeEditorRect l) = point_y p - 5)
    \<and> styleLeft (autorun_layout ob w) = Some (point_x p + contentLeft (layoutInfo (editor ob)) + 10)
    \<and> styleTop (autorun_layout ob w) = Some (point_y p - 10)
    \<and> (\<forall>v'. lineNumber (hint v') = lineNumber (hint v) \<longrightarrow>
          placement (ob\<lparr>viewState := Some v'\<rparr>) = placement ob)"
proof -
  have pos: "hintTextPosition (viewState ob) = Some (Position (lineNumber (hint v)) MAX_SAFE_INTEGER)"
    using assms(1) by (simp add: hintTextPosition_def)
  have tl: "hintTopLeft ob = Some p"
    using assms(2) pos by (simp add: hintTopLeft_def)
  from previewEditorLayoutInfo_Some [OF assms] obtain l where l:
    "previewEditorLayoutInfo ob = Some l"
    "rect_left (codeEditorRect l) = point_x p + contentLeft (layoutInfo (editor ob)) + 15"
    "rect_top (codeEditorRect l) = point_y p - 5"
    "rect_left (widgetRect l) = point_x p + contentLeft (layoutInfo (editor ob)) + 10"
    "rect_top (widgetRect l) = point_y p - 10"
    by blast
  have rect: "\<exists>l. previewEditorLayoutInfo ob = Some l
          \<and> rect_left (codeEditorRect l)
              = point_x p + contentLeft (layoutInfo (editor ob)) + 10 - 5 + (5 + 3 + 2)
          \<and> rect_top (codeEditorRect l) = point_y p - 5"
    using l by simp
  have style: "styleLeft (autorun_layout ob w) = Some (point_x p + contentLeft (layoutInfo (editor ob)) + 10)"
    "styleTop (autorun_layout ob w) = Some (point_y p - 10)"
    using l by (simp_all add: autorun_layout_def Let_def)
  have "ob\<lparr>viewState := Some v\<rparr> = ob"
    using assms(1) by simp
  then have same: "\<forall>v'. lineNumber (hint v') = lineNumber (hint v) \<longrightarrow>
          placement (ob\<lparr>viewState := Some v'\<rparr>) = placement ob"
    using placement_hint_lineNumber [of _ v ob] by simp
  from pos tl rect style same show ?thesis by blast
qed

theorem widget_placed_at_hint_witness:
  "viewState example_observed = Some example_viewState
   \<and> observePosition (editor example_observed)
       (Some (Position (lineNumber (hint example_viewState)) MAX_SAFE_INTEGER)) = Some (Point 40 140)
   \<and> styleLeft (autorun_layout example_observed initial_widget) = Some 110
   \<and> styleTop (autorun_layout example_observed initial_widget) = Some 130"
  using widget_placed_at_hint
    [where ob = example_observed and v = example_viewState and p = "Point 40 140"
       and w = initial_widget]
  by (simp add: example_observed_def example_host_def example_viewState_def
      example_layoutInfo_def)

text \<open>
  C7. Every click on the widget content fires the click event once, with a mouse event
  that wraps the click: one click appends its wrapper to the fired events, and after any
  sequence of events the fired events are the earlier ones followed by the wrappers of the
  clicks of the sequence, in order. The hover flag that the view exposes is the hover
  state of the widget content.
\<close>

theorem onDidClick_fires_once_per_click:
  "fired (dispatch w (Click e)) = fired w @ [StandardMouseEvent (getWindow e) e]
   \<and> browserEvent (StandardMouseEvent (getWindow e) e) = e
   \<and> fired (dispatch w (MouseDown e)) = fired w
   \<and> fired (foldl dispatch w es)
       = fired w @ map (\<lambda>e. StandardMouseEvent (getWindow e) e) (clicksOf es)
   \<and> isHovered w = didMouseMoveDuringHover w"
  by (simp add: fired_foldl_dispatch isHovered_def onclick_def StandardMouseEvent_def)

text \<open>
  C8. \<^verbatim>\<open>fitsInsideViewport\<close> holds exactly when the widest original content of
  the display range, plus the largest render width of the new lines (the maximum starts
  at 0), plus 20, plus 14, is less than the width of the editor minus the content-left
  offset, the width of the vertical scrollbar and the width of the minimap, the last
  counted only when the left position of the minimap is not 0.
\<close>

theorem fitsInsideViewport_iff:
  "fitsInsideViewport renderWidth ed e \<longleftrightarrow>
     maxContentWidthInRange ed (displayRange e) + spec_maxRenderWidth renderWidth (newLines e)
       + 20 + 14 < spec_availableWidth ed"
  by (simp add: fitsInsideViewport_def maxModifiedContent_def spec_maxRenderWidth_def
      spec_availableWidth_def foldl_max_Max ORIGINAL_END_PADDING_def MODIFIED_END_PADDING_def
      BORDER_WIDTH_def Let_def)


end
